theory Spec2Isabelle
  imports Complex_Main "HOL-Library.Sublist"
begin

text \<open>
  The content extractor of the web page content extractor: from a fetched page it
  takes the title and the description, removes the noise elements, chooses a content
  container, and reads the headings of levels 1 to 4 with the content that follows
  each, or a fallback text when there is no heading. The functions below follow
  \<^verbatim>\<open>extractor.ts\<close> one by one and keep its names.
\<close>

section \<open>Strings\<close>

text \<open>
  A JavaScript string is a sequence of UTF-16 code units. The embedding writes a code
  unit as a \<^typ>\<open>char\<close>, so it covers the code units below 256 (Latin-1). Of the
  class \<^verbatim>\<open>\s\<close> of regular expressions (which is also what \<^verbatim>\<open>trim\<close> strips) these
  are tab, line feed, vertical tab, form feed, carriage return, space and the
  no-break space.
\<close>

definition isSpace :: "char \<Rightarrow> bool" where
  "isSpace c \<longleftrightarrow> c \<in> set [CHR 0x09, CHR 0x0A, CHR 0x0B, CHR 0x0C, CHR 0x0D, CHR 0x20, CHR 0xA0]"

definition isDigit :: "char \<Rightarrow> bool" where
  "isDigit c \<longleftrightarrow> c \<in> set ''0123456789''"

text \<open>\<^verbatim>\<open>toLowerCase\<close> on Latin-1: the letters A-Z and the accented capitals
  0xC0-0xDE (without the multiplication sign 0xD7) move up by 32.\<close>

definition lowerChar :: "char \<Rightarrow> char" where
  "lowerChar c =
     (let n = (of_char c :: nat)
      in if (65 \<le> n \<and> n \<le> 90) \<or> (192 \<le> n \<and> n \<le> 222 \<and> n \<noteq> 215)
         then char_of (n + 32) else c)"

definition toLowerCase :: "string \<Rightarrow> string" where
  "toLowerCase s = map lowerChar s"

text \<open>\<^verbatim>\<open>toUpperCase\<close>, written out for the ASCII letters: it is applied to element
  names only (by \<^verbatim>\<open>prop('tagName')\<close>), which the parser delivers in lower-case ASCII.\<close>

definition upperChar :: "char \<Rightarrow> char" where
  "upperChar c =
     (let n = (of_char c :: nat)
      in if 97 \<le> n \<and> n \<le> 122 then char_of (n - 32) else c)"

definition toUpperCase :: "string \<Rightarrow> string" where
  "toUpperCase s = map upperChar s"

text \<open>\<^verbatim>\<open>s.trim()\<close>\<close>

definition trim :: "string \<Rightarrow> string" where
  "trim s = rev (dropWhile isSpace (rev (dropWhile isSpace s)))"

text \<open>\<^verbatim>\<open>s.includes(pat)\<close>, also the test of a regular expression that is a plain word.\<close>

fun includesStr :: "string \<Rightarrow> string \<Rightarrow> bool" where
  "includesStr [] pat = (pat = [])"
| "includesStr (c # cs) pat = (prefix pat (c # cs) \<or> includesStr cs pat)"

text \<open>\<^verbatim>\<open>s.replace(/\s+/g, ' ')\<close>: every maximal run of white space becomes one space.\<close>

function collapseWs :: "string \<Rightarrow> string" where
  "collapseWs [] = []"
| "collapseWs (c # cs) =
     (if isSpace c then CHR '' '' # collapseWs (dropWhile isSpace cs)
      else c # collapseWs cs)"
  by pat_completeness auto
termination
  by (relation "measure length") (auto simp: less_Suc_eq_le length_dropWhile_le)

text \<open>
  \<^verbatim>\<open>s.replace(re, '')\<close> for a global regular expression that never matches the empty
  string: scanning from the left, a match at the current position is cut out and the
  scan goes on behind it, otherwise the scan moves one code unit on. The matcher gives
  the length of the match at the start of its argument.
\<close>

fun removeAll :: "(string \<Rightarrow> nat option) \<Rightarrow> string \<Rightarrow> string" where
  "removeAll m [] = []"
| "removeAll m (c # cs) =
     (case m (c # cs) of
        Some n \<Rightarrow> removeAll m (drop (n - 1) cs)
      | None \<Rightarrow> c # removeAll m cs)"

text \<open>A literal under the flag \<^verbatim>\<open>i\<close>: on code units that are ASCII letters the
  flag equates exactly the two cases of the letter. The literal is given in lower case.\<close>

definition asciiLower :: "char \<Rightarrow> char" where
  "asciiLower c =
     (let n = (of_char c :: nat) in if 65 \<le> n \<and> n \<le> 90 then char_of (n + 32) else c)"

definition prefixCI :: "string \<Rightarrow> string \<Rightarrow> bool" where
  "prefixCI lit s \<longleftrightarrow> length lit \<le> length s \<and> map asciiLower (take (length lit) s) = lit"

definition matchLitCI :: "string \<Rightarrow> string \<Rightarrow> nat option" where
  "matchLitCI lit s = (if lit \<noteq> [] \<and> prefixCI lit s then Some (length lit) else None)"

text \<open>\<^verbatim>\<open>pre\d+\]\<close> under \<^verbatim>\<open>i\<close>: the literal, the longest run of digits (at least
  one), then a closing bracket. A shorter run of digits cannot help, since a digit is
  no bracket.\<close>

definition matchDigitsCI :: "string \<Rightarrow> string \<Rightarrow> nat option" where
  "matchDigitsCI pre s =
     (if prefixCI pre s then
        (let rest = drop (length pre) s;
             ds = takeWhile isDigit rest;
             after = dropWhile isDigit rest
         in if ds \<noteq> [] \<and> after \<noteq> [] \<and> hd after = CHR '']''
            then Some (length pre + length ds + 1) else None)
      else None)"

section \<open>Text cleaning\<close>

definition cleanText :: "string \<Rightarrow> string" where
  "cleanText text =
     trim
       (removeAll (matchDigitsCI ''['')
         (removeAll (matchDigitsCI ''[note '')
           (removeAll (matchLitCI ''[citation needed]'')
             (removeAll (matchLitCI ''[edit]'')
               (collapseWs text)))))"

section \<open>The parsed document\<close>

text \<open>
  The source works on the tree that the HTML parser builds and reads it through the
  DOM library: selections by CSS selector, \<^verbatim>\<open>text()\<close>, \<^verbatim>\<open>attr()\<close>, \<^verbatim>\<open>parent()\<close>,
  \<^verbatim>\<open>next()\<close>, \<^verbatim>\<open>remove()\<close>. The embedding takes the parsed tree as its input. A document
  is the list of the nodes below the document root; an element is addressed by its
  path, the child indices from the root, so that two equal subtrees at different places
  stay apart.
\<close>

type_synonym attrs = "(string \<times> string) list"

datatype node =
    Element string attrs "node list"
  | TextNode string
  | Comment string

type_synonym forest = "node list"
type_synonym path = "nat list"

fun isElement :: "node \<Rightarrow> bool" where
  "isElement (Element t a cs) = True"
| "isElement _ = False"

fun nameOf :: "node \<Rightarrow> string" where
  "nameOf (Element t a cs) = t"
| "nameOf _ = []"

fun attribsOf :: "node \<Rightarrow> attrs" where
  "attribsOf (Element t a cs) = a"
| "attribsOf _ = []"

fun childrenOf :: "node \<Rightarrow> node list" where
  "childrenOf (Element t a cs) = cs"
| "childrenOf _ = []"

text \<open>\<^verbatim>\<open>$(el).attr(name)\<close>: \<open>None\<close> is \<^verbatim>\<open>undefined\<close>; \<^verbatim>\<open>attr(name) || ''\<close> is \<open>attrOr\<close>.\<close>

definition attr :: "node \<Rightarrow> string \<Rightarrow> string option" where
  "attr n name = map_of (attribsOf n) name"

definition attrOr :: "node \<Rightarrow> string \<Rightarrow> string" where
  "attrOr n name = (case attr n name of Some v \<Rightarrow> v | None \<Rightarrow> [])"

text \<open>\<^verbatim>\<open>($el.prop('tagName') || '').toLowerCase()\<close>: the property is the element's name
  in upper case.\<close>

definition tagName :: "node \<Rightarrow> string" where
  "tagName n = toLowerCase (toUpperCase (nameOf n))"

text \<open>\<^verbatim>\<open>text()\<close>: the data of all text nodes below the node, in document order;
  comments have none.\<close>

fun textOf :: "node \<Rightarrow> string" and textOfList :: "node list \<Rightarrow> string" where
  "textOf (Element t a cs) = textOfList cs"
| "textOf (TextNode s) = s"
| "textOf (Comment s) = []"
| "textOfList [] = []"
| "textOfList (n # ns) = textOf n @ textOfList ns"

text \<open>The elements of a subtree with their paths, in document order. \<open>elemsOf\<close> starts
  with the node itself at the empty path; \<open>elemsOfList i\<close> numbers the nodes of a child
  list from \<open>i\<close>.\<close>

fun elemsOf :: "node \<Rightarrow> (path \<times> node) list"
  and elemsOfList :: "nat \<Rightarrow> node list \<Rightarrow> (path \<times> node) list" where
  "elemsOf (Element t a cs) = ([], Element t a cs) # elemsOfList 0 cs"
| "elemsOf (TextNode s) = []"
| "elemsOf (Comment s) = []"
| "elemsOfList i [] = []"
| "elemsOfList i (n # ns) = map (\<lambda>(p, m). (i # p, m)) (elemsOf n) @ elemsOfList (Suc i) ns"

definition allElems :: "forest \<Rightarrow> (path \<times> node) list" where
  "allElems doc = elemsOfList 0 doc"

text \<open>The proper descendants of a node that are elements, in document order.\<close>

definition descendants :: "node \<Rightarrow> node list" where
  "descendants n = map snd (elemsOfList 0 (childrenOf n))"

fun nodeAt :: "forest \<Rightarrow> path \<Rightarrow> node option" where
  "nodeAt ns [] = None"
| "nodeAt ns [i] = (if i < length ns then Some (ns ! i) else None)"
| "nodeAt ns (i # p) = (if i < length ns then nodeAt (childrenOf (ns ! i)) p else None)"

text \<open>\<^verbatim>\<open>parent()\<close>: the parent element; the document root is no parent.\<close>

definition parentPath :: "path \<Rightarrow> path option" where
  "parentPath p = (if length p \<le> 1 then None else Some (butlast p))"

definition parentOf :: "forest \<Rightarrow> path \<Rightarrow> node option" where
  "parentOf doc p = (case parentPath p of None \<Rightarrow> None | Some q \<Rightarrow> nodeAt doc q)"

text \<open>The elements that \<^verbatim>\<open>next()\<close> reaches from an element, one call after the other:
  its following siblings that are elements.\<close>

definition siblingsOf :: "forest \<Rightarrow> path \<Rightarrow> node list" where
  "siblingsOf doc p =
     (case parentPath p of
        None \<Rightarrow> doc
      | Some q \<Rightarrow> (case nodeAt doc q of Some n \<Rightarrow> childrenOf n | None \<Rightarrow> []))"

definition nextAll :: "forest \<Rightarrow> path \<Rightarrow> node list" where
  "nextAll doc p = (if p = [] then [] else filter isElement (drop (Suc (last p)) (siblingsOf doc p)))"

section \<open>Selectors\<close>

text \<open>
  The selectors of the source, parsed by hand. A compound selector is a list of simple
  tests that must all hold of one element (\<^verbatim>\<open>meta[name="description"]\<close> has two); a
  selector is a compound or a child combinator \<^verbatim>\<open>a > b\<close>; a selector list
  \<^verbatim>\<open>a, b\<close> is a list of selectors. Each simple test reads the name and the attributes
  of the element only. A class selector looks for its word in the class attribute
  between white space or the ends; an id selector and \<^verbatim>\<open>[a="v"]\<close> compare the whole
  attribute, \<^verbatim>\<open>[a*="v"]\<close> looks for a substring, \<^verbatim>\<open>[a]\<close> for the attribute.
\<close>

datatype simple =
    Tag string
  | Cls string
  | Ident string
  | AttrEq string string
  | AttrSub string string
  | AttrExists string
  | AnyElem

datatype selector = Compound "simple list" | Child "simple list" "simple list"

definition tokenAt :: "string \<Rightarrow> string \<Rightarrow> bool" where
  "tokenAt v s \<longleftrightarrow> prefix v s \<and> (drop (length v) s = [] \<or> isSpace (hd (drop (length v) s)))"

fun tokenAfterWs :: "string \<Rightarrow> string \<Rightarrow> bool" where
  "tokenAfterWs v [] = False"
| "tokenAfterWs v (c # cs) = ((isSpace c \<and> tokenAt v cs) \<or> tokenAfterWs v cs)"

definition hasToken :: "string \<Rightarrow> string \<Rightarrow> bool" where
  "hasToken v s \<longleftrightarrow> tokenAt v s \<or> tokenAfterWs v s"

fun matchesSimple :: "simple \<Rightarrow> string \<Rightarrow> attrs \<Rightarrow> bool" where
  "matchesSimple (Tag t) nm a = (nm = t)"
| "matchesSimple (Cls c) nm a = (case map_of a ''class'' of Some v \<Rightarrow> hasToken c v | None \<Rightarrow> False)"
| "matchesSimple (Ident i) nm a = (map_of a ''id'' = Some i)"
| "matchesSimple (AttrEq k v) nm a = (map_of a k = Some v)"
| "matchesSimple (AttrSub k v) nm a = (case map_of a k of Some w \<Rightarrow> includesStr w v | None \<Rightarrow> False)"
| "matchesSimple (AttrExists k) nm a = (map_of a k \<noteq> None)"
| "matchesSimple AnyElem nm a = True"

definition matchesCompound :: "simple list \<Rightarrow> string \<Rightarrow> attrs \<Rightarrow> bool" where
  "matchesCompound c nm a \<longleftrightarrow> list_all (\<lambda>s. matchesSimple s nm a) c"

text \<open>An element matches a selector given the name and attributes of its parent element,
  if it has one.\<close>

fun matchesSel :: "selector \<Rightarrow> (string \<times> attrs) option \<Rightarrow> string \<Rightarrow> attrs \<Rightarrow> bool" where
  "matchesSel (Compound c) par nm a = matchesCompound c nm a"
| "matchesSel (Child pc c) par nm a =
     (matchesCompound c nm a \<and>
      (case par of Some (pn, pa) \<Rightarrow> matchesCompound pc pn pa | None \<Rightarrow> False))"

definition matchesAny :: "selector list \<Rightarrow> (string \<times> attrs) option \<Rightarrow> string \<Rightarrow> attrs \<Rightarrow> bool" where
  "matchesAny sels par nm a \<longleftrightarrow> list_ex (\<lambda>s. matchesSel s par nm a) sels"

text \<open>A selector list without combinators, tested on a node.\<close>

definition isA :: "simple list list \<Rightarrow> node \<Rightarrow> bool" where
  "isA cs n \<longleftrightarrow> isElement n \<and> list_ex (\<lambda>c. matchesCompound c (nameOf n) (attribsOf n)) cs"

definition tags :: "string list \<Rightarrow> simple list list" where
  "tags ts = map (\<lambda>t. [Tag t]) ts"

text \<open>\<^verbatim>\<open>$(selector)\<close> on the document, \<^verbatim>\<open>$sel.find(selector)\<close> on a selection and
  on one node, each in document order. \<open>findSel\<close> gives the matching elements that lie
  properly below an element of the selection.\<close>

definition selectAll :: "simple list list \<Rightarrow> forest \<Rightarrow> (path \<times> node) list" where
  "selectAll cs doc = filter (\<lambda>(p, n). isA cs n) (allElems doc)"

definition findSel :: "simple list list \<Rightarrow> path list \<Rightarrow> forest \<Rightarrow> (path \<times> node) list" where
  "findSel cs ctx doc =
     filter (\<lambda>(p, n). list_ex (\<lambda>c. strict_prefix c p) ctx \<and> isA cs n) (allElems doc)"

definition findIn :: "simple list list \<Rightarrow> node \<Rightarrow> node list" where
  "findIn cs n = filter (isA cs) (descendants n)"

text \<open>
  \<^verbatim>\<open>$(selector).remove()\<close>: every matching element leaves the tree with its subtree.
  \<open>removeFrom P par ns\<close> works on the child list \<open>ns\<close> of the element \<open>par\<close>.
  The loops of the source that remove the elements of a selection one by one come to
  the same tree: whether an element matches depends on its own name and attributes and
  on those of its parent, which no removal changes.
\<close>

fun removeFrom :: "((string \<times> attrs) option \<Rightarrow> string \<Rightarrow> attrs \<Rightarrow> bool) \<Rightarrow>
      (string \<times> attrs) option \<Rightarrow> node list \<Rightarrow> node list" where
  "removeFrom P par [] = []"
| "removeFrom P par (Element t a cs # ns) =
     (if P par t a then removeFrom P par ns
      else Element t a (removeFrom P (Some (t, a)) cs) # removeFrom P par ns)"
| "removeFrom P par (TextNode s # ns) = TextNode s # removeFrom P par ns"
| "removeFrom P par (Comment s # ns) = Comment s # removeFrom P par ns"

definition removeSel :: "selector list \<Rightarrow> forest \<Rightarrow> forest" where
  "removeSel sels doc = removeFrom (matchesAny sels) None doc"

text \<open>\<^verbatim>\<open>$clone.find(selector).remove()\<close> on the clone of one element.\<close>

definition without :: "simple list list \<Rightarrow> node \<Rightarrow> node" where
  "without cs n =
     (case n of
        Element t a ch \<Rightarrow>
          Element t a (removeFrom (\<lambda>par nm atts. list_ex (\<lambda>c. matchesCompound c nm atts) cs) (Some (t, a)) ch)
      | _ \<Rightarrow> n)"

section \<open>Noise removal\<close>

definition NOISE_SELECTORS :: "selector list" where
  "NOISE_SELECTORS =
     map (\<lambda>t. Compound [Tag t])
       [''nav'', ''footer'', ''header'', ''aside'', ''noscript'', ''script'', ''style'',
        ''iframe'', ''svg''] @
     map (\<lambda>r. Compound [AttrEq ''role'' r])
       [''navigation'', ''banner'', ''contentinfo'', ''complementary''] @
     map (\<lambda>c. Compound [Cls c])
       [''nav'', ''navbar'', ''navigation'', ''menu'', ''sidebar'', ''footer'', ''header'',
        ''advertisement'', ''ad'', ''ads'', ''social-share'', ''social-links'',
        ''share-buttons'', ''cookie'', ''cookie-banner'', ''cookie-consent'', ''popup'',
        ''modal'', ''overlay'', ''breadcrumb'', ''breadcrumbs'', ''pagination'', ''pager'',
        ''comments'', ''comment-section'', ''related-posts'', ''recommended''] @
     map (\<lambda>v. Compound [AttrSub ''class'' v])
       [''cookie'', ''popup'', ''modal'', ''banner'', ''newsletter'', ''subscribe'', ''promo''] @
     [Compound [Cls ''mw-editsection''], Compound [Cls ''noprint''], Compound [Cls ''navbox''],
      Compound [Cls ''navbox-styles''], Compound [Cls ''infobox''], Compound [Ident ''toc''],
      Compound [Cls ''toc''], Compound [Cls ''reference''], Compound [Cls ''mw-jump-link''],
      Compound [Cls ''mw-references-wrap''], Compound [Cls ''interlanguage-link''],
      Compound [Cls ''mw-indicator''], Child [Cls ''mw-parser-output''] [Cls ''hatnote''],
      Compound [AttrSub ''href'' ''action=edit''], Compound [Cls ''catlinks''],
      Compound [Cls ''printfooter''], Compound [Ident ''siteSub''], Compound [Ident ''contentSub''],
      Compound [Cls ''mw-heading-collapsible''], Compound [Cls ''sidebar''],
      Compound [Ident ''mw-navigation''], Compound [Ident ''mw-panel''],
      Compound [Cls ''vector-menu''], Compound [Cls ''mw-portlet''],
      Compound [Ident ''p-lang-btn''], Compound [Cls ''mw-interlanguage-selector'']] @
     map (\<lambda>i. Compound [Ident i])
       [''nav'', ''navigation'', ''menu'', ''sidebar'', ''footer'', ''header'',
        ''comments'', ''related'', ''advertisement'']"

definition noisePatterns :: "string list" where
  "noisePatterns =
     [''footer'', ''nav'', ''menu'', ''sidebar'', ''widget'', ''advertisement'',
      ''social'', ''share'', ''comment'', ''related'', ''recommended'', ''promo'',
      ''newsletter'', ''subscribe'', ''cookie'', ''gdpr'', ''consent'']"

text \<open>The body of the loop over \<^verbatim>\<open>$('[class]')\<close>: whether the element is removed.\<close>

definition isNoiseClass :: "attrs \<Rightarrow> bool" where
  "isNoiseClass a =
     (case map_of a ''class'' of
        None \<Rightarrow> False
      | Some className \<Rightarrow>
          (let lowerClass = toLowerCase className
           in list_ex (\<lambda>pattern. includesStr lowerClass pattern \<and>
                                 \<not> includesStr lowerClass ''content'') noisePatterns))"

definition removeNoiseElements :: "forest \<Rightarrow> forest" where
  "removeNoiseElements doc =
     (let d1 = foldl (\<lambda>d selector. removeSel [selector] d) doc NOISE_SELECTORS;
          d2 = removeFrom (\<lambda>par nm a. isNoiseClass a) None d1;
          d3 = removeSel [Compound [AttrExists ''hidden'']] d2;
          d4 = removeSel [Compound [AttrSub ''style'' ''display: none'']] d3;
          d5 = removeSel [Compound [AttrSub ''style'' ''display:none'']] d4
      in removeSel [Compound [AttrEq ''aria-hidden'' ''true'']] d5)"

section \<open>Content container\<close>

definition CONTENT_CONTAINER_SELECTORS :: "simple list list" where
  "CONTENT_CONTAINER_SELECTORS =
     [[Tag ''main''], [Tag ''article''], [AttrEq ''role'' ''main''], [Ident ''content''],
      [Ident ''main-content''], [Ident ''main''], [Cls ''content''], [Cls ''post''],
      [Cls ''article''], [Cls ''entry-content''], [Cls ''post-content''],
      [Cls ''article-content''], [Cls ''page-content''], [Cls ''main-content'']]"

definition normText :: "node \<Rightarrow> string" where
  "normText n = trim (collapseWs (textOf n))"

definition getTextLength :: "node \<Rightarrow> nat" where
  "getTextLength n = length (normText n)"

text \<open>
  \<^verbatim>\<open>$el.html()\<close>: the serialisation of the children of the element. Only its length
  is read, for the score. Text is escaped unless the parent holds raw text; elements
  without content have no end tag.
\<close>

definition voidElements :: "string list" where
  "voidElements = [''area'', ''base'', ''basefont'', ''bgsound'', ''br'', ''col'', ''embed'',
     ''frame'', ''hr'', ''img'', ''input'', ''keygen'', ''link'', ''meta'', ''param'',
     ''source'', ''track'', ''wbr'']"

definition rawTextElements :: "string list" where
  "rawTextElements = [''style'', ''script'', ''xmp'', ''iframe'', ''noembed'', ''noframes'',
     ''plaintext'', ''noscript'']"

fun escapeText :: "string \<Rightarrow> string" where
  "escapeText [] = []"
| "escapeText (c # cs) =
     (if c = CHR ''&'' then ''&amp;'' else if c = CHR 0xA0 then ''&nbsp;''
      else if c = CHR ''<'' then ''&lt;'' else if c = CHR ''>'' then ''&gt;'' else [c])
     @ escapeText cs"

fun escapeAttr :: "string \<Rightarrow> string" where
  "escapeAttr [] = []"
| "escapeAttr (c # cs) =
     (if c = CHR ''&'' then ''&amp;'' else if c = CHR 0xA0 then ''&nbsp;''
      else if c = CHR 0x22 then ''&quot;'' else [c])
     @ escapeAttr cs"

definition serializeAttrs :: "attrs \<Rightarrow> string" where
  "serializeAttrs a = concat (map (\<lambda>(k, v). '' '' @ k @ [CHR ''='', CHR 0x22] @ escapeAttr v @ [CHR 0x22]) a)"

fun serializeNode :: "string \<Rightarrow> node \<Rightarrow> string"
  and serializeChildren :: "string \<Rightarrow> node list \<Rightarrow> string" where
  "serializeNode parent (Element t a cs) =
     ''<'' @ t @ serializeAttrs a @ ''>'' @
     (if t \<in> set voidElements then [] else serializeChildren t cs @ ''</'' @ t @ ''>'')"
| "serializeNode parent (TextNode s) = (if parent \<in> set rawTextElements then s else escapeText s)"
| "serializeNode parent (Comment s) = ''<!--'' @ s @ ''-->''"
| "serializeChildren parent [] = []"
| "serializeChildren parent (n # ns) = serializeNode parent n @ serializeChildren parent ns"

definition html :: "node \<Rightarrow> string" where
  "html n = serializeChildren (nameOf n) (childrenOf n)"

text \<open>
  The scores are double-precision numbers in the source; the embedding computes them
  in the reals. The two tests that decide whether an element is a candidate compare
  lengths: \<open>textLength < 200\<close> is a test on integers, and the quotient of two lengths
  is above one half in double precision exactly when it is in the reals. The scores
  themselves can differ from the rounded ones, so where two candidates score the same
  in the reals, or nearly so, the source may choose the other one; only the choice
  among the candidates depends on this, not which elements are candidates.
\<close>

definition calculateTextToTagRatio :: "node \<Rightarrow> real" where
  "calculateTextToTagRatio n =
     (let textLength = length (normText n);
          tagCount = length (findIn [[AnyElem]] n) + 1
      in if tagCount = 0 then 0 else real textLength / real tagCount)"

definition calculateLinkDensity :: "node \<Rightarrow> real" where
  "calculateLinkDensity n =
     (let totalText = length (normText n)
      in if totalText = 0 then 1
         else (let linkTextLength = foldl (\<lambda>acc a. acc + length (normText a)) 0 (findIn (tags [''a'']) n)
               in real linkTextLength / real totalText))"

definition testAny :: "string list \<Rightarrow> string \<Rightarrow> bool" where
  "testAny alternatives s \<longleftrightarrow> list_ex (includesStr s) alternatives"

text \<open>The body of the loop over \<^verbatim>\<open>$('div, section, article, main')\<close>: \<open>None\<close> where
  the body returns early, the score that is pushed otherwise. \<open>depth\<close> is the number of
  ancestor elements.\<close>

definition scoreCandidate :: "nat \<Rightarrow> node \<Rightarrow> real option" where
  "scoreCandidate depth n =
     (let textLength = length (normText n) in
      if textLength < 200 then None
      else if calculateLinkDensity n > 0.5 then None
      else
        (let textToTagRatio = calculateTextToTagRatio n;
             htmlLength = length (html n)
         in if htmlLength = 0 then None
            else
              (let textDensity = real textLength / real htmlLength;
                   normalizedLength = min (real textLength / 5000) 1;
                   normalizedDensity = textDensity;
                   normalizedRatio = min (textToTagRatio / 50) 1;
                   score0 = normalizedLength * 0.4 + normalizedDensity * 0.3 + normalizedRatio * 0.3;
                   tn = tagName n;
                   score1 = (if tn = ''article'' then score0 * 1.5 else score0);
                   score2 = (if tn = ''main'' then score1 * 1.4 else score1);
                   className = toLowerCase (attrOr n ''class'');
                   ident = toLowerCase (attrOr n ''id'');
                   score3 = (if testAny [''content'', ''article'', ''post'', ''entry'', ''body'', ''main'']
                                  (className @ ident)
                             then score2 * 1.3 else score2);
                   score4 = score3 / (1 + real depth * 0.05);
                   score5 = (if testAny [''sidebar'', ''widget'', ''aside'', ''related'', ''popular'', ''trending'']
                                  (className @ ident)
                             then score4 * 0.3 else score4)
               in Some score5)))"

definition candidates :: "forest \<Rightarrow> (path \<times> real) list" where
  "candidates doc =
     concat (map (\<lambda>(p, n). case scoreCandidate (length p - 1) n of
                               None \<Rightarrow> [] | Some score \<Rightarrow> [(p, score)])
       (selectAll (tags [''div'', ''section'', ''article'', ''main'']) doc))"

text \<open>A container is a selection: the list of the paths of its elements.
  \<^verbatim>\<open>$('body')\<close> holds every \<open>body\<close> element, and none when the noise filter removed
  it. The sort of the source is stable and puts the highest score first.\<close>

definition findHighestTextDensityElement :: "forest \<Rightarrow> path list" where
  "findHighestTextDensityElement doc =
     (let bestElement = map fst (selectAll (tags [''body'']) doc);
          bestScore = (0 :: real);
          sorted = sort_key (\<lambda>(p, score). - score) (candidates doc)
      in case sorted of
           (p, score) # rest \<Rightarrow> (if score > bestScore then [p] else bestElement)
         | [] \<Rightarrow> bestElement)"

text \<open>The loop over the matches of one selector: the first match with the longest text.\<close>

fun bestContainer :: "(path \<times> node) \<Rightarrow> nat \<Rightarrow> (path \<times> node) list \<Rightarrow> (path \<times> node) \<times> nat" where
  "bestContainer best maxTextLength [] = (best, maxTextLength)"
| "bestContainer best maxTextLength ((p, n) # els) =
     (let textLen = getTextLength n
      in if textLen > maxTextLength then bestContainer (p, n) textLen els
         else bestContainer best maxTextLength els)"

fun findSemanticContainer :: "simple list list \<Rightarrow> forest \<Rightarrow> path list option" where
  "findSemanticContainer [] doc = None"
| "findSemanticContainer (selector # selectors) doc =
     (case selectAll [selector] doc of
        [] \<Rightarrow> findSemanticContainer selectors doc
      | first # others \<Rightarrow>
          (let (best, maxTextLength) = bestContainer first (getTextLength (snd first)) (first # others)
           in if maxTextLength > 100 then Some [fst best]
              else findSemanticContainer selectors doc))"

definition findContentContainer :: "forest \<Rightarrow> path list" where
  "findContentContainer doc =
     (case findSemanticContainer CONTENT_CONTAINER_SELECTORS doc of
        Some c \<Rightarrow> c
      | None \<Rightarrow> findHighestTextDensityElement doc)"

section \<open>Lists and tables\<close>

text \<open>\<^verbatim>\<open>xs.join(sep)\<close>\<close>

fun joinStr :: "string \<Rightarrow> string list \<Rightarrow> string" where
  "joinStr sep [] = []"
| "joinStr sep [x] = x"
| "joinStr sep (x # y # ys) = x @ sep @ joinStr sep (y # ys)"

text \<open>The decimal digits of a number, as a template literal prints an index.\<close>

function showNat :: "nat \<Rightarrow> string" where
  "showNat n = (if n < 10 then [char_of (48 + n)] else showNat (n div 10) @ [char_of (48 + n mod 10)])"
  by pat_completeness auto
termination
  by (relation "measure id") auto

text \<open>
  The bullet of an unordered item. The literal of the source file has the three code
  units U+00E2, U+20AC, U+00A2. The middle one lies beyond the code units that a
  \<^typ>\<open>char\<close> can hold; 0x80 stands for it here, so the text of an unordered item
  differs from the source in that one code unit.
\<close>

definition bullet :: string where
  "bullet = [CHR 0xE2, CHR 0x80, CHR 0xA2]"

text \<open>
  \<open>formatList\<close>: \<open>formatItems\<close> is the loop over \<^verbatim>\<open>$list.children('li')\<close>, with the
  index of the item among them, and \<open>formatNested\<close> the loop over
  \<^verbatim>\<open>$li.children('ul, ol')\<close>; both walk a child list and pass over the other nodes.
\<close>

fun formatItems :: "bool \<Rightarrow> nat \<Rightarrow> nat \<Rightarrow> node list \<Rightarrow> string list"
  and formatNested :: "nat \<Rightarrow> node list \<Rightarrow> string list" where
  "formatItems isOrdered depth index [] = []"
| "formatItems isOrdered depth index (Element t a cs # ns) =
     (if t = ''li'' then
        (let txt = cleanText (textOf (without (tags [''ul'', ''ol'']) (Element t a cs)));
             indent = concat (replicate depth ''  '');
             marker = (if isOrdered then showNat (index + 1) @ ''.'' else bullet)
         in (if txt \<noteq> [] then [indent @ marker @ '' '' @ txt] else []) @
            formatNested depth cs @
            formatItems isOrdered depth (Suc index) ns)
      else formatItems isOrdered depth index ns)"
| "formatItems isOrdered depth index (TextNode s # ns) = formatItems isOrdered depth index ns"
| "formatItems isOrdered depth index (Comment s # ns) = formatItems isOrdered depth index ns"
| "formatNested depth [] = []"
| "formatNested depth (Element t a cs # ns) =
     (if t = ''ul'' \<or> t = ''ol'' then
        (let isNestedOrdered = (tagName (Element t a cs) = ''ol'');
             nestedContent = joinStr [CHR 0x0A] (formatItems isNestedOrdered (depth + 1) 0 cs)
         in (if nestedContent \<noteq> [] then [nestedContent] else []) @ formatNested depth ns)
      else formatNested depth ns)"
| "formatNested depth (TextNode s # ns) = formatNested depth ns"
| "formatNested depth (Comment s # ns) = formatNested depth ns"

definition formatList :: "node \<Rightarrow> bool \<Rightarrow> nat \<Rightarrow> string" where
  "formatList list isOrdered depth = joinStr [CHR 0x0A] (formatItems isOrdered depth 0 (childrenOf list))"

text \<open>\<^verbatim>\<open>if (s) xs.push(s)\<close>\<close>

definition pushIf :: "string \<Rightarrow> string list" where
  "pushIf s = (if s \<noteq> [] then [s] else [])"

definition tableCells :: "node \<Rightarrow> string list" where
  "tableCells tr = concat (map (\<lambda>cell. pushIf (cleanText (textOf cell))) (findIn (tags [''th'', ''td'']) tr))"

definition tableRows :: "node \<Rightarrow> string list" where
  "tableRows table =
     concat (map (\<lambda>tr. let cells = tableCells tr
                        in if length cells > 0 then [joinStr '' | '' cells] else [])
       (findIn (tags [''tr'']) table))"

definition extractTableContent :: "node \<Rightarrow> string" where
  "extractTableContent table = joinStr [CHR 0x0A] (tableRows table)"

section \<open>Element content\<close>

definition extractElementContent :: "node \<Rightarrow> string list" where
  "extractElementContent element =
     (let tn = tagName element in
      if tn = ''ul'' \<or> tn = ''ol'' then pushIf (formatList element (tn = ''ol'') 0)
      else
        (if tn \<in> set [''p'', ''div'', ''section'', ''article'', ''blockquote'', ''figcaption''] then
           (let lists = findIn (tags [''ul'', ''ol'']) element in
            if length lists > 0 then
              pushIf (cleanText (textOf (without (tags [''ul'', ''ol'']) element))) @
              concat (map (\<lambda>list. pushIf (formatList list (tagName list = ''ol'') 0)) lists)
            else
              (let paragraphs = findIn (tags [''p'']) element in
               if length paragraphs > 0 \<and> tn \<noteq> ''p'' then
                 concat (map (\<lambda>p. pushIf (cleanText (textOf p))) paragraphs)
               else pushIf (cleanText (textOf element))))
         else []) @
        (if tn = ''dl'' then
           concat (map (\<lambda>item. let txt = cleanText (textOf item)
                                in if txt \<noteq> [] then
                                     [if tagName item = ''dt'' then ''**'' @ txt @ ''**'' else ''  '' @ txt]
                                   else [])
             (findIn (tags [''dt'', ''dd'']) element))
         else []) @
        (if tn = ''table'' then pushIf (extractTableContent element) else []))"

section \<open>Headings\<close>

text \<open>A number of the source is an integer or \<^verbatim>\<open>NaN\<close>, which is \<open>None\<close>; a
  comparison with \<^verbatim>\<open>NaN\<close> is false.\<close>

definition charAt :: "string \<Rightarrow> nat \<Rightarrow> string" where
  "charAt s i = (if i < length s then [s ! i] else [])"

text \<open>\<^verbatim>\<open>parseInt\<close> without a radix: leading white space, a sign, then the decimal
  digits up to the first other code unit. It is applied to the result of \<open>charAt\<close>
  only, a string of at most one code unit, so a hexadecimal prefix never occurs.\<close>

definition parseInt :: "string \<Rightarrow> int option" where
  "parseInt s =
     (let t = dropWhile isSpace s;
          neg = (t \<noteq> [] \<and> hd t = CHR ''-'');
          u = (if t \<noteq> [] \<and> (hd t = CHR ''-'' \<or> hd t = CHR ''+'') then tl t else t);
          ds = takeWhile isDigit u;
          v = foldl (\<lambda>acc c. 10 * acc + (int (of_char c) - 48)) 0 ds
      in if ds = [] then None else Some (if neg then - v else v))"

definition numLe :: "int option \<Rightarrow> int option \<Rightarrow> bool" where
  "numLe a b = (case (a, b) of (Some x, Some y) \<Rightarrow> x \<le> y | _ \<Rightarrow> False)"

text \<open>A whole-string match under the flag \<^verbatim>\<open>i\<close> against a list of words.\<close>

definition isWordCI :: "string list \<Rightarrow> string \<Rightarrow> bool" where
  "isWordCI ws s \<longleftrightarrow> map asciiLower s \<in> set ws"

definition isNoiseHeading :: "string \<Rightarrow> bool" where
  "isNoiseHeading txt =
     (let t = trim txt in
      isWordCI [''edit''] t \<or>
      isWordCI [''[edit]''] t \<or>
      isWordCI [''content'', ''contents''] t \<or>
      isWordCI [''table of contents''] t \<or>
      isWordCI [''navigation''] t \<or>
      isWordCI [''menu''] t \<or>
      isWordCI [''search''] t \<or>
      isWordCI [''language'', ''languages''] t \<or>
      (takeWhile isDigit t \<noteq> [] \<and>
       isWordCI [''language'', ''languages''] (dropWhile isSpace (dropWhile isDigit t))))"

record HeadingWithContent =
  level :: "int option"
  headingText :: string
  content :: "string list"

text \<open>\<^verbatim>\<open>/^h[1-6]$/.test(tag)\<close>\<close>

definition isHeadingTag :: "string \<Rightarrow> bool" where
  "isHeadingTag t \<longleftrightarrow> t \<in> set [''h1'', ''h2'', ''h3'', ''h4'', ''h5'', ''h6'']"

text \<open>The loop over the fragments of one element: a fragment is trimmed and appended
  unless it is empty or was seen before. The state is the content and the set of the
  texts seen.\<close>

fun addFragments :: "string list \<Rightarrow> string list \<times> string set \<Rightarrow> string list \<times> string set" where
  "addFragments [] st = st"
| "addFragments (t # ts) (collected, seenTexts) =
     (let normalizedText = trim t
      in if normalizedText \<noteq> [] \<and> normalizedText \<notin> seenTexts
         then addFragments ts (collected @ [normalizedText], insert normalizedText seenTexts)
         else addFragments ts (collected, seenTexts))"

text \<open>The \<^verbatim>\<open>while\<close> loop over the following siblings: the list holds the element
  \<^verbatim>\<open>$current\<close> and those that \<^verbatim>\<open>next()\<close> will give after it.\<close>

fun walkSiblings :: "int option \<Rightarrow> node list \<Rightarrow> string list \<times> string set \<Rightarrow> string list \<times> string set" where
  "walkSiblings lvl [] st = st"
| "walkSiblings lvl (current # rest) st =
     (let currentTag = tagName current;
          currentClass = attrOr current ''class''
      in if isHeadingTag currentTag \<and> numLe (parseInt (charAt currentTag 1)) lvl then st
         else if includesStr currentClass ''mw-heading'' \<and>
                 (case findIn (tags [''h1'', ''h2'', ''h3'', ''h4'', ''h5'', ''h6'']) current of
                    [] \<Rightarrow> False
                  | nestedHeading # others \<Rightarrow> numLe (parseInt (charAt (tagName nestedHeading) 1)) lvl)
         then st
         else if includesStr currentClass ''mw-heading'' then walkSiblings lvl rest st
         else walkSiblings lvl rest (addFragments (extractElementContent current) st))"

text \<open>Where the traversal starts: at the heading, or at its parent when the class of
  the parent names a heading wrapper.\<close>

definition traverseFrom :: "forest \<Rightarrow> path \<Rightarrow> path" where
  "traverseFrom doc heading =
     (case parentOf doc heading of
        None \<Rightarrow> heading
      | Some parent \<Rightarrow>
          (let parentClass = attrOr parent ''class''
           in if includesStr parentClass ''mw-heading'' \<or>
                 testAny [''heading-wrapper'', ''section-heading'', ''title-wrapper''] parentClass
              then butlast heading else heading))"

text \<open>The arguments \<^verbatim>\<open>allHeadings\<close> and \<^verbatim>\<open>currentIndex\<close> of the source are never read,
  and neither is the index of the next heading that the caller computes.\<close>

definition collectContentAfterHeading :: "forest \<Rightarrow> path \<Rightarrow> int option \<Rightarrow> string list" where
  "collectContentAfterHeading doc heading lvl =
     fst (walkSiblings lvl (nextAll doc (traverseFrom doc heading)) ([], {}))"

definition headingElements :: "forest \<Rightarrow> path list \<Rightarrow> (path \<times> int option \<times> string) list" where
  "headingElements doc container =
     concat (map (\<lambda>(p, element).
        let tn = toLowerCase (nameOf element);
            lvl = parseInt (charAt tn 1);
            txt = cleanText (textOf element)
        in if txt \<noteq> [] \<and> length txt > 0 \<and> \<not> isNoiseHeading txt then [(p, lvl, txt)] else [])
       (findSel (tags [''h1'', ''h2'', ''h3'', ''h4'']) container doc))"

definition extractHeadingsWithContent :: "forest \<Rightarrow> path list \<Rightarrow> HeadingWithContent list" where
  "extractHeadingsWithContent doc container =
     map (\<lambda>(p, lvl, txt).
            \<lparr>level = lvl, headingText = txt, content = collectContentAfterHeading doc p lvl\<rparr>)
       (headingElements doc container)"

section \<open>Fallback content\<close>

datatype FallbackContent = FallbackContent (source: string) (fallbackText: string)

definition isNavigationText :: "string \<Rightarrow> bool" where
  "isNavigationText txt =
     (let t = trim txt in
      isWordCI [''home'', ''about'', ''contact'', ''login'', ''sign up'', ''sign in'', ''register'', ''search''] t \<or>
      isWordCI [''prev'', ''next'', ''previous'', ''back'', ''forward''] t \<or>
      (t \<noteq> [] \<and> list_all isDigit t) \<or>
      isWordCI [''more'', ''less'', ''show'', ''hide''] t)"

text \<open>\<^verbatim>\<open>[...new Set(xs)]\<close>: the first occurrence of each value, in order.\<close>

fun uniqueTexts :: "string list \<Rightarrow> string list" where
  "uniqueTexts [] = []"
| "uniqueTexts (x # xs) = x # uniqueTexts (filter (\<lambda>y. y \<noteq> x) xs)"

definition articleSelectors :: "simple list list" where
  "articleSelectors = [[Tag ''article''], [Cls ''article''], [Cls ''post''], [Cls ''entry''],
     [Cls ''story''], [Cls ''item'']]"

text \<open>Strategy 1, the loop over the article selectors: the first selector whose
  matches give a text of more than 50 code units decides.\<close>

fun articleContainers :: "simple list list \<Rightarrow> forest \<Rightarrow> path list \<Rightarrow> FallbackContent option" where
  "articleContainers [] doc container = None"
| "articleContainers (selector # selectors) doc container =
     (let articles = findSel [selector] container doc;
          texts = concat (map (\<lambda>(p, article).
                    let txt = cleanText (textOf article)
                    in if txt \<noteq> [] \<and> length txt > 50
                       then [take 500 txt @ (if length txt > 500 then ''...'' else [])]
                       else []) articles)
      in if length articles > 0 \<and> length texts > 0
         then Some (FallbackContent ''article-containers'' (joinStr [CHR 0x0A, CHR 0x0A] (take 10 texts)))
         else articleContainers selectors doc container)"

definition extractFallbackContent :: "forest \<Rightarrow> path list \<Rightarrow> FallbackContent option" where
  "extractFallbackContent doc container =
     (case articleContainers articleSelectors doc container of
        Some fc \<Rightarrow> Some fc
      | None \<Rightarrow>
          (let paragraphs = concat (map (\<lambda>(p, para).
                              let txt = cleanText (textOf para)
                              in if txt \<noteq> [] \<and> length txt > 30 then [txt] else [])
                            (findSel (tags [''p'']) container doc))
           in if length paragraphs > 0
              then Some (FallbackContent ''paragraphs'' (joinStr [CHR 0x0A, CHR 0x0A] (take 20 paragraphs)))
              else
                (let textBlocks = concat (map (\<lambda>(p, el).
                                    let txt = cleanText (textOf el)
                                    in if txt \<noteq> [] \<and> length txt > 20 \<and> length txt < 500 \<and>
                                          \<not> isNavigationText txt
                                       then [(txt, tagName el)] else [])
                                  (findSel (tags [''td'', ''span'', ''a'']) container doc))
                 in if length textBlocks > 0
                    then Some (FallbackContent ''text-blocks''
                                 (joinStr [CHR 0x0A] (take 30 (uniqueTexts (map fst textBlocks)))))
                    else None)))"

section \<open>Meta information\<close>

text \<open>\<^verbatim>\<open>a || b\<close> on values that are a string or \<^verbatim>\<open>undefined\<close>/\<^verbatim>\<open>null\<close>: the
  empty string counts as absent.\<close>

definition orElse :: "string option \<Rightarrow> string option \<Rightarrow> string option" where
  "orElse a b = (case a of Some s \<Rightarrow> (if s \<noteq> [] then Some s else b) | None \<Rightarrow> b)"

text \<open>\<^verbatim>\<open>$(selector).text()\<close> joins the texts of all matches;
  \<^verbatim>\<open>$(selector).attr('content')?.trim()\<close> reads the first match.\<close>

definition selText :: "(path \<times> node) list \<Rightarrow> string" where
  "selText sel = concat (map (\<lambda>(p, n). textOf n) sel)"

definition contentAttr :: "(path \<times> node) list \<Rightarrow> string option" where
  "contentAttr sel =
     (case sel of [] \<Rightarrow> None | (p, n) # others \<Rightarrow> map_option trim (attr n ''content''))"

definition extractMetaTitle :: "forest \<Rightarrow> string option" where
  "extractMetaTitle doc =
     (let title =
        orElse (Some (trim (selText (selectAll [[Tag ''title'']] doc))))
       (orElse (contentAttr (selectAll [[Tag ''meta'', AttrEq ''property'' ''og:title'']] doc))
       (orElse (contentAttr (selectAll [[Tag ''meta'', AttrEq ''name'' ''twitter:title'']] doc))
       (orElse (Some (trim (selText (take 1 (selectAll [[Tag ''h1'']] doc)))))
        None)))
      in orElse title None)"

definition extractMetaDescription :: "forest \<Rightarrow> string option" where
  "extractMetaDescription doc =
     (let description =
        orElse (contentAttr (selectAll [[Tag ''meta'', AttrEq ''name'' ''description'']] doc))
       (orElse (contentAttr (selectAll [[Tag ''meta'', AttrEq ''property'' ''og:description'']] doc))
       (orElse (contentAttr (selectAll [[Tag ''meta'', AttrEq ''name'' ''twitter:description'']] doc))
        None))
      in orElse description None)"

section \<open>Extraction\<close>

text \<open>
  The response of the fetch, with the document the parser builds from its body. The
  time stamp of the result comes from the clock and is an argument here. A response
  that is not ok makes the source throw; that is the error value.
\<close>

datatype response = Response (ok: bool) (status: nat) (statusText: string) (document: forest)

datatype error = FetchFailed nat string

record ExtractedContent =
  url :: string
  metaTitle :: "string option"
  metaDescription :: "string option"
  headings :: "HeadingWithContent list"
  fallbackContent :: "FallbackContent option"
  extractedAt :: string

definition extractSEOContent :: "string \<Rightarrow> string \<Rightarrow> response \<Rightarrow> error + ExtractedContent" where
  "extractSEOContent u now response =
     (if \<not> ok response then Inl (FetchFailed (status response) (statusText response))
      else
        (let doc0 = document response;
             mt = extractMetaTitle doc0;
             md = extractMetaDescription doc0;
             doc = removeNoiseElements doc0;
             contentContainer = findContentContainer doc;
             hs = extractHeadingsWithContent doc contentContainer;
             fb = (if length hs = 0 then extractFallbackContent doc contentContainer else None)
         in Inr \<lparr>url = u, metaTitle = mt, metaDescription = md, headings = hs,
                 fallbackContent = fb, extractedAt = now\<rparr>))"

section \<open>Auxiliary notions for the properties\<close>

text \<open>The tags for which the element formatter has a branch.\<close>

definition dispatchTags :: "string list" where
  "dispatchTags = [''ul'', ''ol'', ''p'', ''div'', ''section'', ''article'', ''blockquote'',
     ''figcaption'', ''dl'', ''table'']"

text \<open>
  The fragments that the traversal of the siblings meets, in document order and before
  any is dropped: the fragments of each sibling that is neither a stop nor a skipped
  wrapper, up to the first stop. \<open>normalized\<close> trims them and drops the empty ones.
\<close>

fun siblingFragments :: "int option \<Rightarrow> node list \<Rightarrow> string list" where
  "siblingFragments lvl [] = []"
| "siblingFragments lvl (current # rest) =
     (let currentTag = tagName current;
          currentClass = attrOr current ''class''
      in if isHeadingTag currentTag \<and> numLe (parseInt (charAt currentTag 1)) lvl then []
         else if includesStr currentClass ''mw-heading'' \<and>
                 (case findIn (tags [''h1'', ''h2'', ''h3'', ''h4'', ''h5'', ''h6'']) current of
                    [] \<Rightarrow> False
                  | nestedHeading # others \<Rightarrow> numLe (parseInt (charAt (tagName nestedHeading) 1)) lvl)
         then []
         else if includesStr currentClass ''mw-heading'' then siblingFragments lvl rest
         else extractElementContent current @ siblingFragments lvl rest)"

definition normalized :: "string list \<Rightarrow> string list" where
  "normalized ts = filter (\<lambda>t. t \<noteq> []) (map trim ts)"

text \<open>\<open>extend c xs\<close> appends to \<open>c\<close> the first occurrence of each text of \<open>xs\<close> that
  \<open>c\<close> does not hold.\<close>

definition extend :: "string list \<Rightarrow> string list \<Rightarrow> string list" where
  "extend c xs = c @ uniqueTexts (filter (\<lambda>t. t \<notin> set c) xs)"

text \<open>
  The noise filter as a list of passes, each removing the elements that one test
  accepts.
\<close>

definition noisePasses :: "((string \<times> attrs) option \<Rightarrow> string \<Rightarrow> attrs \<Rightarrow> bool) list" where
  "noisePasses =
     map (\<lambda>selector. matchesAny [selector]) NOISE_SELECTORS @
     [\<lambda>par nm a. isNoiseClass a,
      matchesAny [Compound [AttrExists ''hidden'']],
      matchesAny [Compound [AttrSub ''style'' ''display: none'']],
      matchesAny [Compound [AttrSub ''style'' ''display:none'']],
      matchesAny [Compound [AttrEq ''aria-hidden'' ''true'']]]"

definition runPasses :: "((string \<times> attrs) option \<Rightarrow> string \<Rightarrow> attrs \<Rightarrow> bool) list \<Rightarrow> forest \<Rightarrow> forest" where
  "runPasses Ps doc = foldl (\<lambda>d P. removeFrom P None d) doc Ps"

text \<open>
  The lines of a table as the claim about tables words them: for every row, the
  cleaned texts of its cells that are not empty, joined by the separator; rows without
  such a cell give no line.
\<close>

definition rowLines :: "node \<Rightarrow> string list" where
  "rowLines table =
     map (joinStr '' | '')
       (filter (\<lambda>cells. cells \<noteq> [])
         (map (\<lambda>tr. filter (\<lambda>c. c \<noteq> []) (map (\<lambda>cell. cleanText (textOf cell)) (findIn (tags [''th'', ''td'']) tr)))
           (findIn (tags [''tr'']) table)))"

text \<open>
  The link density as the specification defines it, the sum of the lengths of the
  anchor texts over the length of the whole text, and the elements that may be scored
  in the fallback phase of the container selection.
\<close>

definition linkDensity :: "node \<Rightarrow> real" where
  "linkDensity n = real (sum_list (map getTextLength (findIn (tags [''a'']) n))) / real (getTextLength n)"

definition eligible :: "node \<Rightarrow> bool" where
  "eligible n \<longleftrightarrow>
     nameOf n \<in> set [''div'', ''section'', ''article'', ''main''] \<and>
     200 \<le> getTextLength n \<and> linkDensity n \<le> 1 / 2"

text \<open>
  No strategy of the fallback extractor finds a text below the container: no match of
  an article selector has a cleaned text of more than 50 code units, no paragraph one
  of more than 30, and no table cell, span or anchor one of more than 20 and less than
  500 code units that is not a navigation text.
\<close>

definition noFallbackText :: "forest \<Rightarrow> path list \<Rightarrow> bool" where
  "noFallbackText doc container \<longleftrightarrow>
     (\<forall>selector \<in> set articleSelectors. \<forall>(p, n) \<in> set (findSel [selector] container doc).
        length (cleanText (textOf n)) \<le> 50) \<and>
     (\<forall>(p, n) \<in> set (findSel (tags [''p'']) container doc). length (cleanText (textOf n)) \<le> 30) \<and>
     (\<forall>(p, n) \<in> set (findSel (tags [''td'', ''span'', ''a'']) container doc).
        \<not> (20 < length (cleanText (textOf n)) \<and> length (cleanText (textOf n)) < 500 \<and>
           \<not> isNavigationText (cleanText (textOf n))))"

text \<open>The ids that the static selector list names.\<close>

definition staticIds :: "string list" where
  "staticIds = [''toc'', ''siteSub'', ''contentSub'', ''mw-navigation'', ''mw-panel'', ''p-lang-btn'',
     ''nav'', ''navigation'', ''menu'', ''sidebar'', ''footer'', ''header'', ''comments'',
     ''related'', ''advertisement'']"

section \<open>Example documents\<close>

definition exPre :: node where
  "exPre = Element ''pre'' [] [TextNode ''some code'']"

text \<open>A page whose body holds a block with the id \<^verbatim>\<open>widget\<close> and no class.\<close>

definition exWidget :: node where
  "exWidget = Element ''div'' [(''id'', ''widget'')] [TextNode ''Latest posts'']"

definition docWidget :: forest where
  "docWidget =
     [Element ''html'' []
        [Element ''head'' [] [],
         Element ''body'' [] [exWidget, Element ''p'' [] [TextNode ''Body text'']]]]"

text \<open>A page with a block of class \<^verbatim>\<open>Nav-Content\<close> and one of class \<^verbatim>\<open>Top-NavBar\<close>.\<close>

definition exNavContent :: node where
  "exNavContent = Element ''div'' [(''class'', ''Nav-Content'')] [TextNode ''Main text'']"

definition docNav :: forest where
  "docNav =
     [Element ''html'' []
        [Element ''head'' [] [],
         Element ''body'' []
           [exNavContent, Element ''div'' [(''class'', ''Top-NavBar'')] [TextNode ''Home'']]]]"

text \<open>A table with a row of two cells, a row whose only cell is blank, and a row of one cell.\<close>

definition exTable :: node where
  "exTable = Element ''table'' []
     [Element ''tbody'' []
        [Element ''tr'' [] [Element ''td'' [] [TextNode ''a''], Element ''td'' [] [TextNode ''b'']],
         Element ''tr'' [] [Element ''td'' [] [TextNode '' '']],
         Element ''tr'' [] [Element ''td'' [] [TextNode ''c'']]]]"

text \<open>A page with a block of 219 code units of text, few of them in a link, and a
  block of 250 code units of which 150 are link text.\<close>

definition exLongDiv :: node where
  "exLongDiv = Element ''div'' [(''id'', ''story'')]
     [Element ''p'' [] [TextNode (replicate 210 CHR ''x'')],
      Element ''a'' [(''href'', ''/more'')] [TextNode ''read more'']]"

definition exLinkDiv :: node where
  "exLinkDiv = Element ''div'' []
     [Element ''a'' [(''href'', ''/a'')] [TextNode (replicate 150 CHR ''y'')],
      TextNode (replicate 100 CHR ''z'')]"

definition docLong :: forest where
  "docLong = [Element ''html'' [] [Element ''head'' [] [], Element ''body'' [] [exLongDiv, exLinkDiv]]]"

text \<open>The page of the end-to-end example of the specification.\<close>

definition docExample :: forest where
  "docExample =
     [Element ''html'' []
        [Element ''head'' [] [Element ''title'' [] [TextNode ''Example Domain'']],
         Element ''body'' []
           [Element ''h1'' [] [TextNode ''Example Domain''],
            Element ''p'' [] [TextNode ''This domain is for use in illustrative examples...'']]]]"

text \<open>A page without headings whose only paragraph is too short for the fallback, and
  one whose paragraph is long enough.\<close>

definition docShort :: forest where
  "docShort =
     [Element ''html'' []
        [Element ''head'' [] [],
         Element ''body'' [] [Element ''p'' [] [TextNode ''Hi'']]]]"

definition docParagraph :: forest where
  "docParagraph =
     [Element ''html'' []
        [Element ''head'' [] [],
         Element ''body'' [] [Element ''p'' [] [TextNode ''This paragraph is long enough to be taken.'']]]]"

text \<open>
  A page of two sections whose headings are wrapped in blocks of class
  \<^verbatim>\<open>section-heading\<close>, and a page where a block of class \<^verbatim>\<open>mw-heading\<close> holds a
  level-3 heading before a level-2 heading.
\<close>

definition docSections :: forest where
  "docSections =
     [Element ''html'' []
        [Element ''head'' [] [],
         Element ''body'' []
           [Element ''div'' [(''class'', ''section-heading'')] [Element ''h2'' [] [TextNode ''First'']],
            Element ''p'' [] [TextNode ''one''],
            Element ''div'' [(''class'', ''section-heading'')] [Element ''h2'' [] [TextNode ''Second'']],
            Element ''p'' [] [TextNode ''two'']]]]"

definition docWrapped :: forest where
  "docWrapped =
     [Element ''html'' []
        [Element ''head'' [] [],
         Element ''body'' []
           [Element ''h2'' [] [TextNode ''First''],
            Element ''p'' [] [TextNode ''one''],
            Element ''div'' [(''class'', ''mw-heading'')]
              [Element ''h3'' [] [TextNode ''Sub''], Element ''h2'' [] [TextNode ''Second'']],
            Element ''p'' [] [TextNode ''two'']]]]"

text \<open>A page whose second heading and a \<^verbatim>\<open>pre\<close> element lie in one block that follows
  the first heading.\<close>

definition docNested :: forest where
  "docNested =
     [Element ''html'' []
        [Element ''head'' [] [],
         Element ''body'' []
           [Element ''h1'' [] [TextNode ''Top''],
            Element ''div'' []
              [Element ''h2'' [] [TextNode ''Sub''], exPre]]]]"

section \<open>Properties\<close>

subsection \<open>Text cleaning\<close>

text \<open>
  C2. The claim is that the text cleaner is idempotent. The cleaner collapses white
  space before it strips the bracketed markers, so a marker between two spaces leaves
  two spaces behind, which a second run collapses: on \<^verbatim>\<open>a [1] b\<close> the first run gives
  \<^verbatim>\<open>a  b\<close> and the second \<^verbatim>\<open>a b\<close>. Each kind of marker is also stripped in one
  pass only, so the text left around a stripped marker can close up to a new marker:
  \<^verbatim>\<open>see [[1]2]\<close> becomes \<^verbatim>\<open>see [2]\<close> and then \<^verbatim>\<open>see\<close>.
\<close>

theorem cleanText_twice_differs:
  "cleanText ''a [1] b'' = ''a  b'' \<and> cleanText (cleanText ''a [1] b'') = ''a b'' \<and>
   cleanText ''see [[1]2]'' = ''see [2]'' \<and> cleanText (cleanText ''see [[1]2]'') = ''see''"
  by code_simp

subsection \<open>Elements without a branch in the formatter\<close>

lemma extractElementContent_other:
  assumes "tagName e \<notin> set dispatchTags"
  shows "extractElementContent e = []"
  using assms by (auto simp: extractElementContent_def dispatchTags_def Let_def)

lemma walkSiblings_other:
  assumes "tagName e \<notin> set dispatchTags"
  shows "walkSiblings lvl (e # rest) st = st \<or> walkSiblings lvl (e # rest) st = walkSiblings lvl rest st"
  using extractElementContent_other[OF assms] by (simp add: Let_def)

text \<open>
  C10, as amended. An element whose tag is none of ul, ol, p, div, section, article,
  blockquote, figcaption, dl, table gives the empty list of fragments; as the current
  sibling of a traversal it either ends the traversal with the content collected so
  far or is passed over with that content unchanged.
\<close>

theorem other_tags_give_no_content:
  "tagName e \<notin> set dispatchTags \<Longrightarrow>
     extractElementContent e = [] \<and>
     (walkSiblings lvl (e # rest) st = st \<or> walkSiblings lvl (e # rest) st = walkSiblings lvl rest st)"
  using extractElementContent_other walkSiblings_other by blast

theorem other_tags_give_no_content_witness:
  "tagName exPre \<notin> set dispatchTags \<and> extractElementContent exPre = []"
proof -
  have h: "tagName exPre \<notin> set dispatchTags" by code_simp
  from other_tags_give_no_content[OF h] h show ?thesis by simp
qed

text \<open>
  The claim as stated goes on: the text of such an element never appears in the
  content of any heading. On the page where the \<^verbatim>\<open>pre\<close> element follows the second
  heading inside a block, the block is a sibling of the first heading and is formatted
  as a whole, so the text of the \<^verbatim>\<open>pre\<close> element is part of the content of the first
  heading.
\<close>

theorem nested_pre_text_reaches_content:
  "tagName exPre \<notin> set dispatchTags \<and>
   extractSEOContent ''u'' ''now'' (Response True 200 ''OK'' docNested) =
     Inr \<lparr>url = ''u'', metaTitle = Some ''Top'', metaDescription = None,
          headings =
            [\<lparr>level = Some 1, headingText = ''Top'', content = [''Subsome code'']\<rparr>,
             \<lparr>level = Some 2, headingText = ''Sub'', content = []\<rparr>],
          fallbackContent = None, extractedAt = ''now''\<rparr> \<and>
   includesStr ''Subsome code'' (textOf exPre)"
  by code_simp


subsection \<open>Deduplication of the content of a heading\<close>

lemma uniqueTexts_filter: "uniqueTexts (filter P xs) = filter P (uniqueTexts xs)"
proof (induction xs rule: uniqueTexts.induct)
  case 1
  then show ?case by simp
next
  case (2 x xs)
  show ?case
  proof (cases "P x")
    case True
    have "filter (\<lambda>y. y \<noteq> x) (filter P xs) = filter P (filter (\<lambda>y. y \<noteq> x) xs)"
      by (simp add: conj_commute)
    with True 2 show ?thesis by simp
  next
    case False
    then have "filter P xs = filter P (filter (\<lambda>y. y \<noteq> x) xs)"
      unfolding filter_filter by (intro filter_cong[OF refl]) auto
    with False 2 show ?thesis by simp
  qed
qed

lemma set_uniqueTexts: "set (uniqueTexts xs) = set xs"
  by (induction xs rule: uniqueTexts.induct) auto

lemma distinct_uniqueTexts: "distinct (uniqueTexts xs)"
  by (induction xs rule: uniqueTexts.induct) (auto simp: set_uniqueTexts)

lemma subseq_uniqueTexts: "subseq (uniqueTexts xs) xs"
proof (induction xs rule: uniqueTexts.induct)
  case 1
  then show ?case by simp
next
  case (2 x xs)
  have "subseq (filter (\<lambda>y. y \<noteq> x) xs) xs" by simp
  with 2 have "subseq (uniqueTexts (filter (\<lambda>y. y \<noteq> x) xs)) xs"
    using subseq_order.order_trans by blast
  then show ?case by simp
qed

lemma uniqueTexts_append:
  "uniqueTexts (xs @ ys) = uniqueTexts xs @ uniqueTexts (filter (\<lambda>y. y \<notin> set xs) ys)"
proof (induction xs arbitrary: ys rule: uniqueTexts.induct)
  case 1
  then show ?case by simp
next
  case (2 x xs)
  let ?ne = "\<lambda>y. y \<noteq> x"
  have eq: "filter (\<lambda>y. y \<notin> set (filter ?ne xs)) (filter ?ne ys)
        = filter ?ne (filter (\<lambda>y. y \<notin> set (x # xs)) ys)"
    unfolding filter_filter by (rule filter_cong[OF refl]) auto
  have "uniqueTexts ((x # xs) @ ys) = x # uniqueTexts (filter ?ne xs @ filter ?ne ys)"
    by simp
  also have "\<dots> = x # uniqueTexts (filter ?ne xs) @
                 uniqueTexts (filter (\<lambda>y. y \<notin> set (filter ?ne xs)) (filter ?ne ys))"
    using 2[of "filter ?ne ys"] by simp
  also have "\<dots> = uniqueTexts (x # xs) @ uniqueTexts (filter ?ne (filter (\<lambda>y. y \<notin> set (x # xs)) ys))"
    by (simp only: eq uniqueTexts.simps append_Cons)
  also have "filter ?ne (filter (\<lambda>y. y \<notin> set (x # xs)) ys) = filter (\<lambda>y. y \<notin> set (x # xs)) ys"
    unfolding filter_filter by (rule filter_cong[OF refl]) auto
  finally show ?case .
qed

lemma extend_extend: "extend (extend c xs) ys = extend c (xs @ ys)"
proof -
  have "filter (\<lambda>t. t \<notin> set (extend c xs)) ys
        = filter (\<lambda>y. y \<notin> set (filter (\<lambda>t. t \<notin> set c) xs)) (filter (\<lambda>t. t \<notin> set c) ys)"
    unfolding filter_filter by (rule filter_cong[OF refl]) (auto simp: extend_def set_uniqueTexts)
  then show ?thesis
    by (simp add: extend_def uniqueTexts_append del: filter_filter)
qed

lemma addFragments_extend:
  "addFragments ts (c, set c) = (extend c (normalized ts), set (extend c (normalized ts)))"
proof (induction ts arbitrary: c)
  case Nil
  then show ?case by (simp add: extend_def normalized_def)
next
  case (Cons t ts)
  show ?case
  proof (cases "trim t \<noteq> [] \<and> trim t \<notin> set c")
    case True
    have "extend (c @ [trim t]) (normalized ts) = extend c (normalized (t # ts))"
    proof -
      have "c @ [trim t] = extend c [trim t]" using True by (simp add: extend_def)
      then have "extend (c @ [trim t]) (normalized ts) = extend c ([trim t] @ normalized ts)"
        by (simp add: extend_extend)
      with True show ?thesis by (simp add: normalized_def)
    qed
    with True Cons[of "c @ [trim t]"] show ?thesis by (simp add: Let_def)
  next
    case False
    have "extend c (normalized (t # ts)) = extend c (normalized ts)"
    proof (cases "trim t = []")
      case True
      then show ?thesis by (simp add: normalized_def)
    next
      case nonempty: False
      with False have "trim t \<in> set c" by simp
      then have "c = extend c [trim t]" by (simp add: extend_def)
      then have "extend c (normalized ts) = extend c ([trim t] @ normalized ts)"
        using extend_extend by metis
      with nonempty show ?thesis by (simp add: normalized_def)
    qed
    with False Cons[of c] show ?thesis by (auto simp: Let_def)
  qed
qed

lemma normalized_append: "normalized (xs @ ys) = normalized xs @ normalized ys"
  by (simp add: normalized_def)

lemma walkSiblings_extend:
  "walkSiblings lvl sibs (c, set c) =
     (extend c (normalized (siblingFragments lvl sibs)),
      set (extend c (normalized (siblingFragments lvl sibs))))"
proof (induction sibs arbitrary: c)
  case Nil
  then show ?case by (simp add: extend_def normalized_def)
next
  case (Cons current rest)
  show ?case
    by (simp add: Let_def addFragments_extend Cons.IH extend_extend normalized_append)
       (simp add: extend_def normalized_def)
qed

text \<open>
  C8. The content stored for a heading is the sequence of the trimmed, non-empty
  fragments met by the traversal with every repetition of an earlier fragment left
  out: it holds no string twice, it holds exactly the strings met, and it keeps them
  in the order in which they were first met.
\<close>

theorem content_deduplicated_in_order:
  "collectContentAfterHeading doc h lvl =
     uniqueTexts (normalized (siblingFragments lvl (nextAll doc (traverseFrom doc h)))) \<and>
   distinct (collectContentAfterHeading doc h lvl) \<and>
   subseq (collectContentAfterHeading doc h lvl)
          (normalized (siblingFragments lvl (nextAll doc (traverseFrom doc h)))) \<and>
   set (collectContentAfterHeading doc h lvl) =
     set (normalized (siblingFragments lvl (nextAll doc (traverseFrom doc h))))"
proof -
  have "walkSiblings lvl (nextAll doc (traverseFrom doc h)) ([], set []) =
        (extend [] (normalized (siblingFragments lvl (nextAll doc (traverseFrom doc h)))),
         set (extend [] (normalized (siblingFragments lvl (nextAll doc (traverseFrom doc h))))))"
    by (rule walkSiblings_extend)
  then have "collectContentAfterHeading doc h lvl =
     uniqueTexts (normalized (siblingFragments lvl (nextAll doc (traverseFrom doc h))))"
    by (simp add: collectContentAfterHeading_def extend_def)
  then show ?thesis
    by (simp add: distinct_uniqueTexts subseq_uniqueTexts set_uniqueTexts)
qed


subsection \<open>The noise filter\<close>

lemma removeFrom_idem: "removeFrom P par (removeFrom P par ns) = removeFrom P par ns"
  by (induction P par ns rule: removeFrom.induct) auto

lemma removeFrom_commute:
  "removeFrom P par (removeFrom Q par ns) = removeFrom Q par (removeFrom P par ns)"
  by (induction Q par ns rule: removeFrom.induct) auto

lemma runPasses_Cons: "runPasses (P # Ps) d = runPasses Ps (removeFrom P None d)"
  by (simp add: runPasses_def)

lemma runPasses_commute: "removeFrom P None (runPasses Ps d) = runPasses Ps (removeFrom P None d)"
proof (induction Ps arbitrary: d)
  case Nil
  then show ?case by (simp add: runPasses_def)
next
  case (Cons Q Qs)
  show ?case
    by (simp add: runPasses_Cons Cons.IH removeFrom_commute[of P None Q])
qed

lemma runPasses_idem: "runPasses Ps (runPasses Ps d) = runPasses Ps d"
proof (induction Ps arbitrary: d)
  case Nil
  then show ?case by (simp add: runPasses_def)
next
  case (Cons P Ps)
  have "runPasses (P # Ps) (runPasses (P # Ps) d)
        = runPasses Ps (removeFrom P None (runPasses Ps (removeFrom P None d)))"
    by (simp add: runPasses_Cons)
  also have "\<dots> = runPasses Ps (runPasses Ps (removeFrom P None (removeFrom P None d)))"
    by (simp add: runPasses_commute)
  also have "\<dots> = runPasses Ps (removeFrom P None d)"
    by (simp add: removeFrom_idem Cons.IH)
  finally show ?case by (simp add: runPasses_Cons)
qed

lemma runPasses_absorb: "P \<in> set Ps \<Longrightarrow> removeFrom P None (runPasses Ps d) = runPasses Ps d"
proof (induction Ps arbitrary: d)
  case Nil
  then show ?case by simp
next
  case (Cons Q Qs)
  show ?case
  proof (cases "P = Q")
    case True
    then show ?thesis
      by (simp add: runPasses_Cons runPasses_commute removeFrom_idem)
  next
    case False
    with Cons.prems have "P \<in> set Qs" by simp
    then show ?thesis by (simp add: runPasses_Cons Cons.IH)
  qed
qed

lemma foldl_map_passes:
  "foldl (\<lambda>d selector. removeSel [selector] d) doc sels = runPasses (map (\<lambda>selector. matchesAny [selector]) sels) doc"
  by (induction sels arbitrary: doc) (simp_all add: runPasses_def removeSel_def)

lemma runPasses_append: "runPasses (Ps @ Qs) d = runPasses Qs (runPasses Ps d)"
  by (simp add: runPasses_def)

lemma removeNoiseElements_passes: "removeNoiseElements doc = runPasses noisePasses doc"
  by (simp add: removeNoiseElements_def noisePasses_def runPasses_append foldl_map_passes Let_def)
     (simp add: runPasses_def removeSel_def)

text \<open>
  C5. Running the noise filter on a tree that it has filtered changes nothing.
\<close>

theorem noise_filter_idempotent:
  "removeNoiseElements (removeNoiseElements doc) = removeNoiseElements doc"
  by (simp add: removeNoiseElements_passes runPasses_idem)

lemma removeFrom_no_match:
  "(p, n) \<in> set (elemsOfList i (removeFrom (\<lambda>par nm a. Q a) par ns)) \<Longrightarrow> \<not> Q (attribsOf n)"
proof (induction "(\<lambda>(par::(string \<times> attrs) option) (nm::string) a. Q a)" par ns arbitrary: i p rule: removeFrom.induct)
  case (1 par)
  then show ?case by simp
next
  case (2 par t a cs ns)
  then show ?case by (auto split: if_splits)
next
  case (3 par s ns)
  then show ?case by auto
next
  case (4 par s ns)
  then show ?case by auto
qed

lemma docNav_filtered:
  "removeNoiseElements docNav =
     [Element ''html'' [] [Element ''head'' [] [], Element ''body'' [] [exNavContent]]]"
  by code_simp

lemma survivor_not_accepted:
  assumes "(\<lambda>par nm a. Q a) \<in> set noisePasses"
    and "(p, n) \<in> set (allElems (removeNoiseElements doc))"
  shows "\<not> Q (attribsOf n)"
proof -
  from assms(1) have "removeNoiseElements doc = removeFrom (\<lambda>par nm a. Q a) None (removeNoiseElements doc)"
    by (simp add: removeNoiseElements_passes runPasses_absorb)
  with assms(2) have "(p, n) \<in> set (elemsOfList 0 (removeFrom (\<lambda>par nm a. Q a) None (removeNoiseElements doc)))"
    by (simp add: allElems_def)
  then show ?thesis by (rule removeFrom_no_match)
qed

lemma ident_pass:
  assumes "i \<in> set staticIds"
  shows "(\<lambda>par nm a. map_of a ''id'' = Some i) \<in> set noisePasses"
proof -
  from assms have "Compound [Ident i] \<in> set NOISE_SELECTORS"
    by (auto simp: staticIds_def NOISE_SELECTORS_def)
  then have "matchesAny [Compound [Ident i]] \<in> (\<lambda>selector. matchesAny [selector]) ` set NOISE_SELECTORS"
    by (rule imageI)
  moreover have "matchesAny [Compound [Ident i]] = (\<lambda>par nm a. map_of a ''id'' = Some i)"
    by (simp add: fun_eq_iff matchesAny_def matchesCompound_def)
  ultimately have "(\<lambda>par nm a. map_of a ''id'' = Some i) \<in> (\<lambda>selector. matchesAny [selector]) ` set NOISE_SELECTORS"
    by simp
  then show ?thesis unfolding noisePasses_def set_append set_map by (rule UnI1)
qed

text \<open>
  C6, as amended. After the noise filter no element is left whose class attribute, in
  lower case, contains one of the noise substrings (the fifteen of the claim,
  \<^verbatim>\<open>recommended\<close> and \<^verbatim>\<open>gdpr\<close>) without also containing \<^verbatim>\<open>content\<close>, and no
  element is left whose id is one of the ids that the static selector list names.
\<close>

theorem noisy_class_removed:
  assumes "(p, n) \<in> set (allElems (removeNoiseElements doc))"
  shows "(\<forall>c pat. attr n ''class'' = Some c \<longrightarrow> pat \<in> set noisePatterns \<longrightarrow>
            includesStr (toLowerCase c) pat \<longrightarrow> includesStr (toLowerCase c) ''content'') \<and>
         (\<forall>i \<in> set staticIds. attr n ''id'' \<noteq> Some i)"
proof
  have "(\<lambda>par nm a. isNoiseClass a) \<in> set noisePasses"
    by (simp add: noisePasses_def)
  from survivor_not_accepted[OF this assms] have "\<not> isNoiseClass (attribsOf n)" .
  then show "\<forall>c pat. attr n ''class'' = Some c \<longrightarrow> pat \<in> set noisePatterns \<longrightarrow>
            includesStr (toLowerCase c) pat \<longrightarrow> includesStr (toLowerCase c) ''content''"
    by (auto simp: isNoiseClass_def attr_def Let_def list_ex_iff)
next
  show "\<forall>i \<in> set staticIds. attr n ''id'' \<noteq> Some i"
  proof
    fix i assume "i \<in> set staticIds"
    from survivor_not_accepted[OF ident_pass[OF this] assms]
    show "attr n ''id'' \<noteq> Some i" by (simp add: attr_def)
  qed
qed

theorem noisy_class_removed_witness:
  "([0, 1, 0], exNavContent) \<in> set (allElems (removeNoiseElements docNav)) \<and>
   attr exNavContent ''class'' = Some ''Nav-Content'' \<and>
   ''nav'' \<in> set noisePatterns \<and>
   includesStr (toLowerCase ''Nav-Content'') ''nav'' \<and>
   includesStr (toLowerCase ''Nav-Content'') ''content''"
proof -
  have a: "([0, 1, 0], exNavContent) \<in> set (allElems (removeNoiseElements docNav))"
    unfolding docNav_filtered by code_simp
  have b: "attr exNavContent ''class'' = Some ''Nav-Content''" by code_simp
  have c: "''nav'' \<in> set noisePatterns" by code_simp
  have d: "includesStr (toLowerCase ''Nav-Content'') ''nav''" by code_simp
  from noisy_class_removed[OF a] b c d
  have "includesStr (toLowerCase ''Nav-Content'') ''content''" by blast
  with a b c d show ?thesis by simp
qed

text \<open>
  The claim as stated speaks of substrings of the id as well: the block with the id
  \<^verbatim>\<open>widget\<close> and no class is still in the tree after the filter.
\<close>

theorem id_substring_not_removed:
  "([0, 1, 0], exWidget) \<in> set (allElems (removeNoiseElements docWidget)) \<and>
   attr exWidget ''id'' = Some ''widget'' \<and>
   includesStr (toLowerCase ''widget'') ''widget'' \<and>
   \<not> includesStr (toLowerCase ''widget'') ''content''"
  by code_simp

subsection \<open>Tables\<close>

lemma pushIf_concat: "concat (map (\<lambda>x. pushIf (f x)) xs) = filter (\<lambda>c. c \<noteq> []) (map f xs)"
  by (induction xs) (simp_all add: pushIf_def)

lemma tableCells_filter:
  "tableCells tr = filter (\<lambda>c. c \<noteq> []) (map (\<lambda>cell. cleanText (textOf cell)) (findIn (tags [''th'', ''td'']) tr))"
  by (simp add: tableCells_def pushIf_concat)

lemma rows_concat:
  "concat (map (\<lambda>tr. if length (g tr) > 0 then [joinStr sep (g tr)] else []) trs)
     = map (joinStr sep) (filter (\<lambda>cells. cells \<noteq> []) (map g trs))"
  by (induction trs) simp_all

lemma tableRows_rowLines: "tableRows table = rowLines table"
proof -
  have "tableRows table =
     concat (map (\<lambda>tr. if length (tableCells tr) > 0 then [joinStr '' | '' (tableCells tr)] else [])
       (findIn (tags [''tr'']) table))"
    by (simp add: tableRows_def Let_def)
  also have "\<dots> = map (joinStr '' | '') (filter (\<lambda>cells. cells \<noteq> []) (map tableCells (findIn (tags [''tr'']) table)))"
    by (rule rows_concat)
  also have "tableCells = (\<lambda>tr. filter (\<lambda>c. c \<noteq> []) (map (\<lambda>cell. cleanText (textOf cell)) (findIn (tags [''th'', ''td'']) tr)))"
    by (simp add: fun_eq_iff tableCells_filter)
  finally show ?thesis by (simp add: rowLines_def)
qed

lemma joinStr_nonempty: "xs \<noteq> [] \<Longrightarrow> \<forall>x \<in> set xs. x \<noteq> [] \<Longrightarrow> joinStr sep xs \<noteq> []"
  by (induction sep xs rule: joinStr.induct) simp_all

lemma rowLines_nonempty:
  assumes "l \<in> set (rowLines table)"
  shows "l \<noteq> []"
proof -
  from assms obtain cells where "l = joinStr '' | '' cells" "cells \<noteq> []" "\<forall>c \<in> set cells. c \<noteq> []"
    by (auto simp: rowLines_def)
  then show ?thesis by (simp add: joinStr_nonempty)
qed

lemma table_fragment:
  assumes "tagName e = ''table''"
  shows "extractElementContent e = (if rowLines e = [] then [] else [joinStr [CHR 0x0A] (rowLines e)])"
proof -
  have "extractElementContent e = pushIf (joinStr [CHR 0x0A] (rowLines e))"
    using assms by (simp add: extractElementContent_def extractTableContent_def tableRows_rowLines Let_def)
  moreover have "rowLines e \<noteq> [] \<Longrightarrow> joinStr [CHR 0x0A] (rowLines e) \<noteq> []"
    using rowLines_nonempty by (intro joinStr_nonempty) auto
  ultimately show ?thesis by (auto simp: pushIf_def)
qed

text \<open>
  C7, as amended. For a table the formatter emits at most one fragment: the lines of
  the rows joined by line feeds, where a row gives a line when it has a cell whose
  cleaned text is not empty, and the line is the non-empty cell texts joined by
  \<^verbatim>\<open> | \<close>. Rows without such a cell give no line, and a table without lines gives no
  fragment.
\<close>

theorem table_is_one_fragment:
  "tagName e = ''table'' \<Longrightarrow>
     extractElementContent e = (if rowLines e = [] then [] else [joinStr [CHR 0x0A] (rowLines e)]) \<and>
     length (extractElementContent e) \<le> 1"
  using table_fragment by simp

theorem table_is_one_fragment_witness:
  "tagName exTable = ''table'' \<and> rowLines exTable = [''a | b'', ''c''] \<and>
   extractElementContent exTable = [''a | b'' @ [CHR 0x0A] @ ''c'']"
proof -
  have t: "tagName exTable = ''table''" by code_simp
  have r: "rowLines exTable = [''a | b'', ''c'']" by code_simp
  from table_is_one_fragment[OF t] t r show ?thesis by simp
qed

text \<open>
  The claim as stated asks for one fragment per row: the example table has three rows,
  two of them with text, and gives one fragment.
\<close>

theorem table_rows_not_separate_fragments:
  "length (findIn (tags [''tr'']) exTable) = 3 \<and>
   tableRows exTable = [''a | b'', ''c''] \<and>
   length (extractElementContent exTable) = 1"
  by code_simp

subsection \<open>Headings\<close>

lemma isA_tags: "isA (tags ts) n \<Longrightarrow> nameOf n \<in> set ts"
  by (auto simp: isA_def tags_def list_ex_iff matchesCompound_def)

lemma heading_levels:
  "parseInt (charAt (toLowerCase ''h1'') 1) = Some 1"
  "parseInt (charAt (toLowerCase ''h2'') 1) = Some 2"
  "parseInt (charAt (toLowerCase ''h3'') 1) = Some 3"
  "parseInt (charAt (toLowerCase ''h4'') 1) = Some 4"
  by code_simp+

lemma headingElements_ok:
  assumes "(p, lvl, txt) \<in> set (headingElements doc container)"
  shows "lvl \<in> {Some 1, Some 2, Some 3, Some 4} \<and> txt \<noteq> [] \<and> (\<exists>raw. txt = cleanText raw)"
proof -
  from assms obtain n where f: "(p, n) \<in> set (findSel (tags [''h1'', ''h2'', ''h3'', ''h4'']) container doc)"
    and l: "lvl = parseInt (charAt (toLowerCase (nameOf n)) 1)"
    and t: "txt = cleanText (textOf n)" "txt \<noteq> []"
    by (auto simp: headingElements_def Let_def split: if_splits)
  from f have "nameOf n \<in> set [''h1'', ''h2'', ''h3'', ''h4'']"
    by (auto simp: findSel_def dest: isA_tags)
  with l have "lvl \<in> {Some 1, Some 2, Some 3, Some 4}"
    using heading_levels by auto
  with t show ?thesis by blast
qed

lemma extractHeadings_ok:
  assumes "h \<in> set (extractHeadingsWithContent doc container)"
  shows "level h \<in> {Some 1, Some 2, Some 3, Some 4} \<and> headingText h \<noteq> [] \<and> (\<exists>raw. headingText h = cleanText raw)"
proof -
  from assms obtain p lvl tx where "(p, lvl, tx) \<in> set (headingElements doc container)"
    and "level h = lvl" "headingText h = tx"
    by (auto simp: extractHeadingsWithContent_def)
  with headingElements_ok show ?thesis by metis
qed

text \<open>
  C4. Every heading of the result has a level among 1, 2, 3, 4 and a text that is the
  result of the cleaner and is not empty.
\<close>

theorem headings_have_level_and_text:
  "extractSEOContent u now response = Inr r \<Longrightarrow> h \<in> set (headings r) \<Longrightarrow>
     level h \<in> {Some 1, Some 2, Some 3, Some 4} \<and> headingText h \<noteq> [] \<and>
     (\<exists>raw. headingText h = cleanText raw)"
  by (auto simp: extractSEOContent_def Let_def split: if_splits dest!: extractHeadings_ok)

lemma docExample_result:
  "extractSEOContent ''https://example.com'' ''now'' (Response True 200 ''OK'' docExample) =
     Inr \<lparr>url = ''https://example.com'', metaTitle = Some ''Example Domain'', metaDescription = None,
          headings = [\<lparr>level = Some 1, headingText = ''Example Domain'',
                       content = [''This domain is for use in illustrative examples...'']\<rparr>],
          fallbackContent = None, extractedAt = ''now''\<rparr>"
  by code_simp

theorem headings_have_level_and_text_witness:
  "extractSEOContent ''https://example.com'' ''now'' (Response True 200 ''OK'' docExample) =
     Inr \<lparr>url = ''https://example.com'', metaTitle = Some ''Example Domain'', metaDescription = None,
          headings = [\<lparr>level = Some 1, headingText = ''Example Domain'',
                       content = [''This domain is for use in illustrative examples...'']\<rparr>],
          fallbackContent = None, extractedAt = ''now''\<rparr> \<and>
   level \<lparr>level = Some 1, headingText = ''Example Domain'',
           content = [''This domain is for use in illustrative examples...'']\<rparr> \<in> {Some 1, Some 2, Some 3, Some 4}"
  using headings_have_level_and_text[OF docExample_result, of "\<lparr>level = Some 1, headingText = ''Example Domain'',
           content = [''This domain is for use in illustrative examples...'']\<rparr>"] docExample_result
  by simp

subsection \<open>Fallback content\<close>

lemma concat_guard_empty:
  "concat (map (\<lambda>(p, n). if G n then [f n] else []) xs) = [] \<longleftrightarrow> (\<forall>(p, n) \<in> set xs. \<not> G n)"
  by (induction xs) auto

lemma articleContainers_None:
  "articleContainers sels doc c = None \<longleftrightarrow>
     (\<forall>selector \<in> set sels. \<forall>(p, n) \<in> set (findSel [selector] c doc). length (cleanText (textOf n)) \<le> 50)"
proof (induction sels)
  case Nil
  then show ?case by simp
next
  case (Cons s sels)
  let ?articles = "findSel [s] c doc"
  let ?texts = "concat (map (\<lambda>(p, article).
                    if cleanText (textOf article) \<noteq> [] \<and> length (cleanText (textOf article)) > 50
                    then [take 500 (cleanText (textOf article)) @
                          (if length (cleanText (textOf article)) > 500 then ''...'' else [])]
                    else []) ?articles)"
  have t: "?texts = [] \<longleftrightarrow> (\<forall>(p, n) \<in> set ?articles. length (cleanText (textOf n)) \<le> 50)"
    by (subst concat_guard_empty) (auto simp: not_less)
  have a: "?articles = [] \<Longrightarrow> ?texts = []" by simp
  have "articleContainers (s # sels) doc c = None \<longleftrightarrow> ?texts = [] \<and> articleContainers sels doc c = None"
    using a by (auto simp: Let_def)
  with t Cons show ?case by simp
qed

lemma extractFallbackContent_None:
  "extractFallbackContent doc c = None \<longleftrightarrow> noFallbackText doc c"
proof -
  let ?paras = "concat (map (\<lambda>(p, para).
                   if cleanText (textOf para) \<noteq> [] \<and> length (cleanText (textOf para)) > 30
                   then [cleanText (textOf para)] else [])
                 (findSel (tags [''p'']) c doc))"
  let ?blocks = "concat (map (\<lambda>(p, el).
                   if cleanText (textOf el) \<noteq> [] \<and> length (cleanText (textOf el)) > 20 \<and>
                      length (cleanText (textOf el)) < 500 \<and> \<not> isNavigationText (cleanText (textOf el))
                   then [(cleanText (textOf el), tagName el)] else [])
                 (findSel (tags [''td'', ''span'', ''a'']) c doc))"
  have p: "?paras = [] \<longleftrightarrow> (\<forall>(p, n) \<in> set (findSel (tags [''p'']) c doc). length (cleanText (textOf n)) \<le> 30)"
    by (subst concat_guard_empty) (auto simp: not_less)
  have b: "?blocks = [] \<longleftrightarrow> (\<forall>(p, n) \<in> set (findSel (tags [''td'', ''span'', ''a'']) c doc).
        \<not> (20 < length (cleanText (textOf n)) \<and> length (cleanText (textOf n)) < 500 \<and>
           \<not> isNavigationText (cleanText (textOf n))))"
    by (subst concat_guard_empty) auto
  have "extractFallbackContent doc c = None \<longleftrightarrow>
          articleContainers articleSelectors doc c = None \<and> ?paras = [] \<and> ?blocks = []"
    by (auto simp: extractFallbackContent_def Let_def split: option.splits)
  with p b show ?thesis
    by (simp add: noFallbackText_def articleContainers_None)
qed

lemma articleContainers_source:
  "articleContainers sels doc c = Some fc \<Longrightarrow> source fc = ''article-containers''"
  by (induction sels) (auto simp: Let_def split: if_splits)

lemma extractFallbackContent_source:
  "extractFallbackContent doc c = Some fc \<Longrightarrow>
     source fc \<in> {''article-containers'', ''paragraphs'', ''text-blocks''}"
  by (auto simp: extractFallbackContent_def Let_def split: option.splits if_splits
           dest: articleContainers_source)

text \<open>
  C1, as amended. The fallback content is set if and only if there are no headings
  and one of the three strategies of the fallback extractor finds a text below the
  chosen container of the filtered document. When there are no headings it is what
  the fallback extractor returns, and when it is set its source is one of
  \<^verbatim>\<open>article-containers\<close>, \<^verbatim>\<open>paragraphs\<close>, \<^verbatim>\<open>text-blocks\<close>.
\<close>

theorem fallback_only_without_headings:
  "extractSEOContent u now response = Inr r \<Longrightarrow>
     (fallbackContent r \<noteq> None \<longrightarrow> headings r = []) \<and>
     (headings r = [] \<longrightarrow>
        fallbackContent r =
          extractFallbackContent (removeNoiseElements (document response))
            (findContentContainer (removeNoiseElements (document response)))) \<and>
     (fallbackContent r = None \<longleftrightarrow>
        headings r \<noteq> [] \<or>
        noFallbackText (removeNoiseElements (document response))
          (findContentContainer (removeNoiseElements (document response)))) \<and>
     (\<forall>fc. fallbackContent r = Some fc \<longrightarrow>
        source fc \<in> {''article-containers'', ''paragraphs'', ''text-blocks''})"
proof -
  assume a: "extractSEOContent u now response = Inr r"
  let ?doc = "removeNoiseElements (document response)"
  let ?c = "findContentContainer ?doc"
  from a have h: "headings r = extractHeadingsWithContent ?doc ?c"
    and f: "fallbackContent r = (if headings r = [] then extractFallbackContent ?doc ?c else None)"
    by (auto simp: extractSEOContent_def Let_def split: if_splits)
  from f show ?thesis
    using extractFallbackContent_None[of ?doc ?c] extractFallbackContent_source[of ?doc ?c]
    by (auto split: if_splits)
qed

lemma docParagraph_result:
  "extractSEOContent ''u'' ''now'' (Response True 200 ''OK'' docParagraph) =
     Inr \<lparr>url = ''u'', metaTitle = None, metaDescription = None, headings = [],
          fallbackContent = Some (FallbackContent ''paragraphs'' ''This paragraph is long enough to be taken.''),
          extractedAt = ''now''\<rparr>"
  by code_simp

theorem fallback_only_without_headings_witness:
  "extractSEOContent ''u'' ''now'' (Response True 200 ''OK'' docParagraph) =
     Inr \<lparr>url = ''u'', metaTitle = None, metaDescription = None, headings = [],
          fallbackContent = Some (FallbackContent ''paragraphs'' ''This paragraph is long enough to be taken.''),
          extractedAt = ''now''\<rparr> \<and>
   extractFallbackContent (removeNoiseElements docParagraph)
     (findContentContainer (removeNoiseElements docParagraph)) =
     Some (FallbackContent ''paragraphs'' ''This paragraph is long enough to be taken.'') \<and>
   \<not> noFallbackText (removeNoiseElements docParagraph)
     (findContentContainer (removeNoiseElements docParagraph))"
  using fallback_only_without_headings[OF docParagraph_result] docParagraph_result by simp

text \<open>
  The claim as stated is an equivalence: the page with one short paragraph has no
  heading and no fallback content.
\<close>

theorem no_headings_and_no_fallback:
  "extractSEOContent ''u'' ''now'' (Response True 200 ''OK'' docShort) =
     Inr \<lparr>url = ''u'', metaTitle = None, metaDescription = None, headings = [],
          fallbackContent = None, extractedAt = ''now''\<rparr>"
  by code_simp

subsection \<open>Container selection, fallback phase\<close>

lemma foldl_add_sum: "foldl (\<lambda>acc a. acc + f a) (k::nat) xs = k + sum_list (map f xs)"
  by (induction xs arbitrary: k) simp_all

lemma calculateLinkDensity_eq:
  "getTextLength n \<noteq> 0 \<Longrightarrow> calculateLinkDensity n = linkDensity n"
proof -
  have "(\<lambda>a. length (normText a)) = getTextLength"
    by (simp add: fun_eq_iff getTextLength_def)
  then show "getTextLength n \<noteq> 0 \<Longrightarrow> calculateLinkDensity n = linkDensity n"
    by (simp add: calculateLinkDensity_def linkDensity_def foldl_add_sum Let_def)
       (simp add: getTextLength_def)
qed

lemma scoreCandidate_gates:
  "scoreCandidate d n = Some s \<Longrightarrow> 200 \<le> getTextLength n \<and> calculateLinkDensity n \<le> 1 / 2"
  by (auto simp: scoreCandidate_def getTextLength_def Let_def split: if_splits)

lemma candidates_eligible:
  assumes "(p, s) \<in> set (candidates doc)"
  shows "\<exists>n. (p, n) \<in> set (allElems doc) \<and> eligible n"
proof -
  from assms obtain n where sel: "(p, n) \<in> set (selectAll (tags [''div'', ''section'', ''article'', ''main'']) doc)"
    and sc: "scoreCandidate (length p - 1) n = Some s"
    by (auto simp: candidates_def split: option.splits)
  from sel have el: "(p, n) \<in> set (allElems doc)" and nm: "nameOf n \<in> set [''div'', ''section'', ''article'', ''main'']"
    by (auto simp: selectAll_def dest: isA_tags)
  from scoreCandidate_gates[OF sc] have g: "200 \<le> getTextLength n" "calculateLinkDensity n \<le> 1 / 2"
    by simp_all
  then have "linkDensity n \<le> 1 / 2" using calculateLinkDensity_eq[of n] by simp
  with el nm g show ?thesis by (auto simp: eligible_def)
qed

lemma findHighest_cases:
  "findHighestTextDensityElement doc = map fst (selectAll (tags [''body'']) doc) \<or>
   (\<exists>p s. (p, s) \<in> set (candidates doc) \<and> findHighestTextDensityElement doc = [p])"
proof (cases "sort_key (\<lambda>(p, score). - score) (candidates doc)")
  case Nil
  then show ?thesis by (simp add: findHighestTextDensityElement_def)
next
  case (Cons c cs)
  obtain p s where c: "c = (p, s)" by (cases c)
  have "c \<in> set (sort_key (\<lambda>(p, score). - score) (candidates doc))" using Cons by simp
  then have "(p, s) \<in> set (candidates doc)" using c by simp
  then show ?thesis using Cons c by (auto simp: findHighestTextDensityElement_def)
qed

text \<open>
  C9. Every scored candidate is a div, section, article or main element with at
  least 200 code units of normalized text and a link density of at most one half; the
  element chosen is such a candidate, or else the default, the body.
\<close>

theorem phaseB_only_eligible:
  "(\<forall>(p, s) \<in> set (candidates doc). \<exists>n. (p, n) \<in> set (allElems doc) \<and> eligible n) \<and>
   (findHighestTextDensityElement doc = map fst (selectAll (tags [''body'']) doc) \<or>
    (\<exists>p n. findHighestTextDensityElement doc = [p] \<and> (p, n) \<in> set (allElems doc) \<and> eligible n))"
proof
  show "\<forall>(p, s) \<in> set (candidates doc). \<exists>n. (p, n) \<in> set (allElems doc) \<and> eligible n"
    using candidates_eligible by blast
next
  from findHighest_cases[of doc]
  show "findHighestTextDensityElement doc = map fst (selectAll (tags [''body'']) doc) \<or>
    (\<exists>p n. findHighestTextDensityElement doc = [p] \<and> (p, n) \<in> set (allElems doc) \<and> eligible n)"
  proof
    assume "findHighestTextDensityElement doc = map fst (selectAll (tags [''body'']) doc)"
    then show ?thesis by simp
  next
    assume "\<exists>p s. (p, s) \<in> set (candidates doc) \<and> findHighestTextDensityElement doc = [p]"
    then obtain p s where c: "(p, s) \<in> set (candidates doc)"
      and f: "findHighestTextDensityElement doc = [p]" by blast
    from candidates_eligible[OF c] obtain n where "(p, n) \<in> set (allElems doc)" "eligible n"
      by blast
    with f show ?thesis by blast
  qed
qed

theorem phaseB_only_eligible_witness:
  "map fst (candidates docLong) = [[0, 1, 0]] \<and>
   (\<exists>n. ([0, 1, 0], n) \<in> set (allElems docLong) \<and> eligible n) \<and>
   findHighestTextDensityElement docLong = [[0, 1, 0]] \<and>
   \<not> eligible exLinkDiv"
proof -
  have c: "map fst (candidates docLong) = [[0, 1, 0]]" by code_simp
  have f: "findHighestTextDensityElement docLong = [[0, 1, 0]]" by code_simp
  have l: "\<not> eligible exLinkDiv" by code_simp
  from c obtain s where "([0, 1, 0], s) \<in> set (candidates docLong)"
    by (cases "candidates docLong") auto
  with phaseB_only_eligible[of docLong]
  have "\<exists>n. ([0, 1, 0], n) \<in> set (allElems docLong) \<and> eligible n" by blast
  with c f l show ?thesis by simp
qed


subsection \<open>Traversal of the siblings\<close>

text \<open>
  C3. The claim is that the traversal for a heading of level L stops at a following
  sibling that is a heading wrapper holding a heading of level at most L. The start of
  the traversal knows the wrapper classes \<^verbatim>\<open>mw-heading\<close>, \<^verbatim>\<open>heading-wrapper\<close>,
  \<^verbatim>\<open>section-heading\<close> and \<^verbatim>\<open>title-wrapper\<close>; the stop test knows \<^verbatim>\<open>mw-heading\<close>
  only and looks at the first heading in the wrapper only. On the first page the
  content of the first section runs on through the wrapper of the second and takes
  its heading and its text; on the second page it runs through a wrapper that holds a
  level-2 heading behind a level-3 heading.
\<close>

theorem wrapper_sibling_does_not_stop:
  "extractSEOContent ''u'' ''now'' (Response True 200 ''OK'' docSections) =
     Inr \<lparr>url = ''u'', metaTitle = None, metaDescription = None,
          headings =
            [\<lparr>level = Some 2, headingText = ''First'', content = [''one'', ''Second'', ''two'']\<rparr>,
             \<lparr>level = Some 2, headingText = ''Second'', content = [''two'']\<rparr>],
          fallbackContent = None, extractedAt = ''now''\<rparr> \<and>
   extractHeadingsWithContent docWrapped [[0, 1]] =
     [\<lparr>level = Some 2, headingText = ''First'', content = [''one'', ''two'']\<rparr>,
      \<lparr>level = Some 3, headingText = ''Sub'', content = [''two'']\<rparr>,
      \<lparr>level = Some 2, headingText = ''Second'', content = [''two'']\<rparr>]"
  by code_simp

end
